theory Spec2Isabelle
  imports Complex_Main "HOL-Library.AList"
begin

section \<open>Text and paths\<close>

text \<open>
  Python text is modelled as \<^typ>\<open>string\<close>: a list of code points below 256. A path is its
  text with \<open>/\<close> between components; \<open>Path.name\<close>, \<open>Path.suffix\<close> and \<open>Path.stem\<close> follow
  pathlib: the suffix starts at the last dot of the final component, unless that dot is the
  first or the last character of the component.
\<close>

definition upper_chars :: string where
  "upper_chars = ''ABCDEFGHIJKLMNOPQRSTUVWXYZ'' @
     [CHR 0xC0, CHR 0xC1, CHR 0xC2, CHR 0xC3, CHR 0xC4, CHR 0xC5, CHR 0xC6, CHR 0xC7,
      CHR 0xC8, CHR 0xC9, CHR 0xCA, CHR 0xCB, CHR 0xCC, CHR 0xCD, CHR 0xCE, CHR 0xCF,
      CHR 0xD0, CHR 0xD1, CHR 0xD2, CHR 0xD3, CHR 0xD4, CHR 0xD5, CHR 0xD6,
      CHR 0xD8, CHR 0xD9, CHR 0xDA, CHR 0xDB, CHR 0xDC, CHR 0xDD, CHR 0xDE]"

definition lower_chars :: string where
  "lower_chars = ''abcdefghijklmnopqrstuvwxyz'' @
     [CHR 0xE0, CHR 0xE1, CHR 0xE2, CHR 0xE3, CHR 0xE4, CHR 0xE5, CHR 0xE6, CHR 0xE7,
      CHR 0xE8, CHR 0xE9, CHR 0xEA, CHR 0xEB, CHR 0xEC, CHR 0xED, CHR 0xEE, CHR 0xEF,
      CHR 0xF0, CHR 0xF1, CHR 0xF2, CHR 0xF3, CHR 0xF4, CHR 0xF5, CHR 0xF6,
      CHR 0xF8, CHR 0xF9, CHR 0xFA, CHR 0xFB, CHR 0xFC, CHR 0xFD, CHR 0xFE]"

definition lower_char :: "char \<Rightarrow> char" where
  "lower_char c = (case map_of (zip upper_chars lower_chars) c of Some l \<Rightarrow> l | None \<Rightarrow> c)"

definition lower :: "string \<Rightarrow> string" where
  "lower s = map lower_char s"

fun rfind :: "char \<Rightarrow> string \<Rightarrow> nat option" where
  "rfind c [] = None"
| "rfind c (x # xs) =
     (case rfind c xs of
        Some i \<Rightarrow> Some (Suc i)
      | None \<Rightarrow> if x = c then Some 0 else None)"

definition path_name :: "string \<Rightarrow> string" where
  "path_name p = rev (takeWhile (\<lambda>c. c \<noteq> CHR ''/'') (rev p))"

definition suffix :: "string \<Rightarrow> string" where
  "suffix p =
     (let name = path_name p in
      case rfind (CHR ''.'') name of
        None \<Rightarrow> []
      | Some i \<Rightarrow> if 0 < i \<and> Suc i < length name then drop i name else [])"

definition stem :: "string \<Rightarrow> string" where
  "stem p =
     (let name = path_name p in
      case rfind (CHR ''.'') name of
        None \<Rightarrow> name
      | Some i \<Rightarrow> if 0 < i \<and> Suc i < length name then take i name else name)"

definition joinpath :: "string \<Rightarrow> string \<Rightarrow> string" where
  "joinpath p c = p @ ''/'' @ c"

text \<open>\<open>file.suffix.lower().replace('.', '')\<close>\<close>

definition format_of :: "string \<Rightarrow> string" where
  "format_of file = filter (\<lambda>c. c \<noteq> CHR ''.'') (lower (suffix file))"

section \<open>The data store (core/data_store.py)\<close>

subsection \<open>Data model\<close>

text \<open>
  A materialised GeoDataFrame is known by its object identity, a number handed out by the
  host at each successful \<open>gpd.read_file\<close>.
\<close>

type_synonym handle = nat

type_synonym bbox = "real \<times> real \<times> real \<times> real"

record LayerInfo =
  name :: string
  path :: string
  format :: string
  geometry_type :: "string option"
  crs :: "string option"
  feature_count :: nat
  columns :: "string list"
  bounds :: "bbox option"
  loaded :: bool
  gdf :: "handle option"

record DocumentInfo =
  doc_name :: string
  doc_path :: string
  doc_format :: string
  size_kb :: real
  content_preview :: string
  extracted_text :: "string option"

record scan_summary =
  capas :: nat
  documentos :: nat
  mapas :: nat

datatype event =
    Connected scan_summary
  | LayerLoaded string handle

text \<open>
  What \<open>_analyze_layer\<close> reads from a layer file inside its \<open>try\<close> block: the one-row
  frame, the feature count, and the bounds of a further read, absent when that read raises.
\<close>

record layer_probe =
  head_rows :: nat
  head_geom_type :: string
  frame_crs :: "string option"
  frame_columns :: "string list"
  total_count :: nat
  total_bounds :: "bbox option"

text \<open>
  The host: the directory tree and the files as the library calls see them, the clock, and
  the log of what the store asked of it. \<open>rglob\<close> lists a folder in the order of iteration;
  \<open>probe\<close> is \<open>None\<close> when a read of \<open>_analyze_layer\<close> raises; \<open>read_ok\<close> tells whether
  \<open>gpd.read_file(path)\<close> returns. \<open>read_log\<close> lists the paths \<open>load_layer\<close> handed to
  \<open>gpd.read_file\<close>, \<open>notified\<close> the calls made to observers.
\<close>

record host =
  path_exists :: "string \<Rightarrow> bool"
  rglob :: "string \<Rightarrow> string list"
  is_file :: "string \<Rightarrow> bool"
  st_size :: "string \<Rightarrow> nat"
  probe :: "string \<Rightarrow> layer_probe option"
  read_ok :: "string \<Rightarrow> bool"
  now :: nat
  next_handle :: handle
  read_log :: "string list"
  notified :: "(nat \<times> event) list"

record GeoDataStore =
  root_path :: "string option"
  layers :: "(string \<times> LayerInfo) list"
  documents :: "(string \<times> DocumentInfo) list"
  maps :: "(string \<times> string) list"
  is_connected :: bool
  last_scan :: "nat option"
  observers :: "nat list"

definition LAYER_EXTENSIONS :: "string set" where
  "LAYER_EXTENSIONS = {''.shp'', ''.geojson'', ''.gpkg'', ''.kml'', ''.gml'', ''.json''}"

definition DOC_EXTENSIONS :: "string set" where
  "DOC_EXTENSIONS = {''.pdf'', ''.docx'', ''.doc'', ''.txt'', ''.md'', ''.csv'', ''.xlsx''}"

definition MAP_EXTENSIONS :: "string set" where
  "MAP_EXTENSIONS = {''.qgz'', ''.qgs'', ''.qml'', ''.sld''}"

text \<open>\<open>GeoDataStore.__init__\<close>\<close>

definition new_store :: GeoDataStore where
  "new_store = \<lparr>root_path = None, layers = [], documents = [], maps = [],
     is_connected = False, last_scan = None, observers = []\<rparr>"

subsection \<open>Observers\<close>

text \<open>
  \<open>_notify_observers\<close> calls every observer and swallows whatever it raises. An observer is
  an opaque callback: the model records the call and nothing else.
\<close>

definition notify_observers :: "GeoDataStore \<Rightarrow> event \<Rightarrow> host \<Rightarrow> host" where
  "notify_observers s ev h = h\<lparr>notified := notified h @ map (\<lambda>ob. (ob, ev)) (observers s)\<rparr>"

subsection \<open>Scanning\<close>

definition analyze_layer :: "host \<Rightarrow> string \<Rightarrow> LayerInfo option" where
  "analyze_layer h file =
     (case probe h file of
        Some p \<Rightarrow>
          Some \<lparr>name = stem file, path = file, format = format_of file,
                geometry_type = (if 0 < head_rows p then Some (head_geom_type p) else None),
                crs = frame_crs p,
                feature_count = total_count p,
                columns = filter (\<lambda>c. c \<noteq> ''geometry'') (frame_columns p),
                bounds = total_bounds p,
                loaded = False, gdf = None\<rparr>
      | None \<Rightarrow>
          Some \<lparr>name = stem file, path = file, format = format_of file,
                geometry_type = None, crs = None, feature_count = 0, columns = [],
                bounds = None, loaded = False, gdf = None\<rparr>)"

text \<open>
  The loop of \<open>_scan_layers\<close>, with the set \<open>processed_shapefiles\<close> and the dict
  \<open>self.layers\<close> as accumulators. A dict keeps a key at the place of its first insertion and
  takes the last value stored, which is \<open>AList.update\<close>.
\<close>

fun scan_layers_loop ::
  "host \<Rightarrow> string list \<Rightarrow> string set \<Rightarrow> (string \<times> LayerInfo) list \<Rightarrow> (string \<times> LayerInfo) list"
where
  "scan_layers_loop h [] processed ls = ls"
| "scan_layers_loop h (file # files) processed ls =
     (if lower (suffix file) \<in> LAYER_EXTENSIONS then
        if lower (suffix file) = ''.shp'' \<and> stem file \<in> processed then
          scan_layers_loop h files processed ls
        else
          let processed' =
                (if lower (suffix file) = ''.shp'' then insert (stem file) processed
                 else processed)
          in case analyze_layer h file of
               Some layer_info \<Rightarrow>
                 scan_layers_loop h files processed' (AList.update (name layer_info) layer_info ls)
             | None \<Rightarrow> scan_layers_loop h files processed' ls
      else scan_layers_loop h files processed ls)"

definition scan_layers :: "host \<Rightarrow> string \<Rightarrow> GeoDataStore \<Rightarrow> GeoDataStore" where
  "scan_layers h folder s = s\<lparr>layers := scan_layers_loop h (rglob h folder) {} (layers s)\<rparr>"

fun scan_documents_loop ::
  "host \<Rightarrow> string list \<Rightarrow> (string \<times> DocumentInfo) list \<Rightarrow> (string \<times> DocumentInfo) list"
where
  "scan_documents_loop h [] ds = ds"
| "scan_documents_loop h (file # files) ds =
     (if lower (suffix file) \<in> DOC_EXTENSIONS \<and> is_file h file then
        scan_documents_loop h files
          (AList.update (stem file)
             \<lparr>doc_name = stem file, doc_path = file, doc_format = format_of file,
              size_kb = real (st_size h file) / 1024, content_preview = [],
              extracted_text = None\<rparr> ds)
      else scan_documents_loop h files ds)"

definition scan_documents :: "host \<Rightarrow> string \<Rightarrow> GeoDataStore \<Rightarrow> GeoDataStore" where
  "scan_documents h folder s =
     s\<lparr>documents := scan_documents_loop h (rglob h folder) (documents s)\<rparr>"

fun scan_maps_loop :: "string list \<Rightarrow> (string \<times> string) list \<Rightarrow> (string \<times> string) list" where
  "scan_maps_loop [] ms = ms"
| "scan_maps_loop (file # files) ms =
     (if lower (suffix file) \<in> MAP_EXTENSIONS then
        scan_maps_loop files (AList.update (stem file) file ms)
      else scan_maps_loop files ms)"

definition scan_maps :: "host \<Rightarrow> string \<Rightarrow> GeoDataStore \<Rightarrow> GeoDataStore" where
  "scan_maps h folder s = s\<lparr>maps := scan_maps_loop (rglob h folder) (maps s)\<rparr>"

definition scan_folder :: "host \<Rightarrow> string \<Rightarrow> GeoDataStore \<Rightarrow> scan_summary \<times> GeoDataStore" where
  "scan_folder h root_dir s =
     (let capas_folder = joinpath root_dir ''capas'';
          s1 = (if path_exists h capas_folder then scan_layers h capas_folder s
                else scan_layers h root_dir s);
          docs_folder = joinpath root_dir ''documentos'';
          s2 = (if path_exists h docs_folder then scan_documents h docs_folder s1
                else scan_documents h root_dir s1);
          maps_folder = joinpath root_dir ''mapas'';
          s3 = (if path_exists h maps_folder then scan_maps h maps_folder s2
                else scan_maps h root_dir s2)
      in (\<lparr>capas = length (layers s3), documentos = length (documents s3),
           mapas = length (maps s3)\<rparr>, s3))"

text \<open>
  \<open>connect\<close> returns the error text (\<open>Inl\<close>) or the summary and the timestamp (\<open>Inr\<close>),
  with the store and the host as it leaves them.
\<close>

definition connect ::
  "string \<Rightarrow> GeoDataStore \<times> host \<Rightarrow> (string + scan_summary \<times> nat) \<times> GeoDataStore \<times> host"
where
  "connect p sh =
     (case sh of (s, h) \<Rightarrow>
        if \<not> path_exists h p then (Inl (''La carpeta no existe: '' @ p), s, h)
        else
          let s1 = s\<lparr>root_path := Some p, layers := [], documents := [], maps := []\<rparr>;
              (scan_result, s2) = scan_folder h p s1;
              s3 = s2\<lparr>is_connected := True, last_scan := Some (now h)\<rparr>;
              h' = notify_observers s3 (Connected scan_result) h
          in (Inr (scan_result, now h), s3, h'))"

subsection \<open>Loading\<close>

text \<open>
  \<open>load_layer\<close>: the entry object is mutated in place, so the dict keeps its keys and their
  order. A read that raises is caught and leaves the entry as it was.
\<close>

definition load_layer ::
  "string \<Rightarrow> GeoDataStore \<times> host \<Rightarrow> handle option \<times> GeoDataStore \<times> host"
where
  "load_layer layer_name sh =
     (case sh of (s, h) \<Rightarrow>
        case map_of (layers s) layer_name of
          None \<Rightarrow> (None, s, h)
        | Some layer \<Rightarrow>
            (case gdf layer of
               Some g \<Rightarrow> (Some g, s, h)
             | None \<Rightarrow>
                 if read_ok h (path layer) then
                   let g = next_handle h;
                       h1 = h\<lparr>next_handle := Suc g, read_log := read_log h @ [path layer]\<rparr>;
                       s' = s\<lparr>layers :=
                              AList.update layer_name (layer\<lparr>gdf := Some g, loaded := True\<rparr>)
                                (layers s)\<rparr>
                   in (Some g, s', notify_observers s' (LayerLoaded layer_name g) h1)
                 else (None, s, h\<lparr>read_log := read_log h @ [path layer]\<rparr>)))"

fun load_all_loop ::
  "string list \<Rightarrow> (string \<times> handle) list \<Rightarrow> GeoDataStore \<times> host
     \<Rightarrow> (string \<times> handle) list \<times> GeoDataStore \<times> host"
where
  "load_all_loop [] loaded_acc sh = (loaded_acc, sh)"
| "load_all_loop (n # ns) loaded_acc sh =
     (case load_layer n sh of
        (None, sh') \<Rightarrow> load_all_loop ns loaded_acc sh'
      | (Some g, sh') \<Rightarrow> load_all_loop ns (AList.update n g loaded_acc) sh')"

definition load_all_layers ::
  "GeoDataStore \<times> host \<Rightarrow> (string \<times> handle) list \<times> GeoDataStore \<times> host"
where
  "load_all_layers sh = load_all_loop (map fst (layers (fst sh))) [] sh"

record summary =
  connected :: bool
  summary_root_path :: "string option"
  total_capas :: nat
  total_documentos :: nat
  total_mapas :: nat
  capas_cargadas :: nat
  summary_last_scan :: "nat option"

definition get_summary :: "GeoDataStore \<Rightarrow> summary" where
  "get_summary s =
     \<lparr>connected = is_connected s, summary_root_path = root_path s,
      total_capas = length (layers s), total_documentos = length (documents s),
      total_mapas = length (maps s),
      capas_cargadas = length (filter (\<lambda>(k, l). loaded l) (layers s)),
      summary_last_scan = last_scan s\<rparr>"

subsection \<open>Notions used to state the properties of the store\<close>

text \<open>
  The tests the three scan loops apply to a path, the folder \<open>_scan_folder\<close> hands to a
  loop (the subfolder when it exists, the root otherwise), and the invariant that ties the
  flag \<open>loaded\<close> of an entry to its cached frame.
\<close>

definition is_layer_path :: "string \<Rightarrow> bool" where
  "is_layer_path file = (lower (suffix file) \<in> LAYER_EXTENSIONS)"

definition is_document_path :: "host \<Rightarrow> string \<Rightarrow> bool" where
  "is_document_path h file = (lower (suffix file) \<in> DOC_EXTENSIONS \<and> is_file h file)"

definition is_map_path :: "string \<Rightarrow> bool" where
  "is_map_path file = (lower (suffix file) \<in> MAP_EXTENSIONS)"

definition scanned_folder :: "host \<Rightarrow> string \<Rightarrow> string \<Rightarrow> string" where
  "scanned_folder h root_dir sub =
     (if path_exists h (joinpath root_dir sub) then joinpath root_dir sub else root_dir)"

definition loaded_iff_handle :: "GeoDataStore \<Rightarrow> bool" where
  "loaded_iff_handle s = list_all (\<lambda>(k, l). loaded l = (gdf l \<noteq> None)) (layers s)"

subsection \<open>A small catalog to evaluate on\<close>

definition vias :: LayerInfo where
  "vias = \<lparr>name = ''vias'', path = ''kb/capas/vias.shp'', format = ''shp'',
     geometry_type = Some ''LineString'', crs = Some ''EPSG:4326'', feature_count = 3,
     columns = [''nombre''], bounds = None, loaded = False, gdf = None\<rparr>"

definition vias_loaded :: LayerInfo where
  "vias_loaded = vias\<lparr>gdf := Some 3, loaded := True\<rparr>"

definition vias_scanned :: LayerInfo where
  "vias_scanned = \<lparr>name = ''vias'', path = ''kb/vias.shp'', format = ''shp'',
     geometry_type = None, crs = None, feature_count = 0, columns = [], bounds = None,
     loaded = False, gdf = None\<rparr>"

definition store1 :: GeoDataStore where
  "store1 = new_store\<lparr>root_path := Some ''kb'', layers := [(''vias'', vias)],
     is_connected := True, last_scan := Some 7, observers := [0]\<rparr>"

definition store2 :: GeoDataStore where
  "store2 = store1\<lparr>layers := [(''vias'', vias_loaded)]\<rparr>"

definition host1 :: host where
  "host1 = \<lparr>path_exists = (\<lambda>p. p = ''kb''), rglob = (\<lambda>p. []), is_file = (\<lambda>p. True),
     st_size = (\<lambda>p. 0), probe = (\<lambda>p. None), read_ok = (\<lambda>p. True), now = 8,
     next_handle = 4, read_log = [], notified = []\<rparr>"

definition host_unreadable :: host where
  "host_unreadable = host1\<lparr>read_ok := (\<lambda>p. False)\<rparr>"

text \<open>
  A root without subfolders for layers, documents or maps: two shapefiles of one base name
  with a sidecar, two documents of one base name, one map project.
\<close>

definition host2 :: host where
  "host2 = host1\<lparr>rglob := (\<lambda>p. if p = ''kb''
      then [''kb/vias.shp'', ''kb/sub/vias.shp'', ''kb/vias.dbf'', ''kb/a.pdf'', ''kb/a.txt'',
            ''kb/plan.qgz'']
      else [])\<rparr>"

section \<open>The execution engine (core/execution_engine.py)\<close>

subsection \<open>The deny list\<close>

text \<open>
  The deny patterns use a small part of the syntax of \<open>re\<close>: literal characters, the escapes
  \<open>\s\<close>, \<open>\.\<close> and \<open>\(\<close>, the dot, and the postfix \<open>*\<close> and \<open>+\<close>. \<open>compile_re\<close> reads
  that part; \<open>re_search\<close> is \<open>re.search(pattern, text, re.IGNORECASE) is not None\<close> for it: an
  unanchored match, letters compared without case, \<open>\s\<close> the white space of \<open>str\<close> below 256,
  the dot any character but the line feed.
\<close>

definition bs :: char where
  "bs = CHR 0x5C"

datatype atom = Lit char | Space | AnyChar

datatype tok = TAtom atom | TStar | TPlus

datatype item = One atom | Star atom | Plus atom

definition tok_of :: "char \<Rightarrow> tok" where
  "tok_of c =
     (if c = CHR ''*'' then TStar else if c = CHR ''+'' then TPlus
      else if c = CHR ''.'' then TAtom AnyChar else TAtom (Lit c))"

fun tokens :: "string \<Rightarrow> tok list" where
  "tokens [] = []"
| "tokens [c] = [tok_of c]"
| "tokens (c # d # cs) =
     (if c = bs then TAtom (if d = CHR ''s'' then Space else Lit d) # tokens cs
      else tok_of c # tokens (d # cs))"

fun items :: "tok list \<Rightarrow> item list" where
  "items [] = []"
| "items (TAtom a # TStar # ts) = Star a # items ts"
| "items (TAtom a # TPlus # ts) = Plus a # items ts"
| "items (TAtom a # ts) = One a # items ts"
| "items (t # ts) = items ts"

definition compile_re :: "string \<Rightarrow> item list" where
  "compile_re pattern = items (tokens pattern)"

definition whitespace :: "char list" where
  "whitespace = [CHR 0x09, CHR 0x0A, CHR 0x0B, CHR 0x0C, CHR 0x0D, CHR 0x1C, CHR 0x1D,
     CHR 0x1E, CHR 0x1F, CHR 0x20, CHR 0x85, CHR 0xA0]"

fun atom_matches :: "atom \<Rightarrow> char \<Rightarrow> bool" where
  "atom_matches (Lit p) c = (lower_char c = lower_char p)"
| "atom_matches Space c = (c \<in> set whitespace)"
| "atom_matches AnyChar c = (c \<noteq> CHR 0x0A)"

fun match_here :: "item list \<Rightarrow> string \<Rightarrow> bool" where
  "match_here [] s = True"
| "match_here (One a # r) [] = False"
| "match_here (One a # r) (c # cs) = (if atom_matches a c then match_here r cs else False)"
| "match_here (Plus a # r) [] = False"
| "match_here (Plus a # r) (c # cs) =
     (if atom_matches a c then match_here (Star a # r) cs else False)"
| "match_here (Star a # r) [] = match_here r []"
| "match_here (Star a # r) (c # cs) =
     (if match_here r (c # cs) then True
      else if atom_matches a c then match_here (Star a # r) cs else False)"

fun search_items :: "item list \<Rightarrow> string \<Rightarrow> bool" where
  "search_items its [] = match_here its []"
| "search_items its (c # cs) = (if match_here its (c # cs) then True else search_items its cs)"

definition re_search :: "string \<Rightarrow> string \<Rightarrow> bool" where
  "re_search pattern text = search_items (compile_re pattern) text"

definition FORBIDDEN_PATTERNS :: "string list" where
  "FORBIDDEN_PATTERNS =
     [''import'' @ bs # ''s+os'',
      ''import'' @ bs # ''s+subprocess'',
      ''import'' @ bs # ''s+sys'',
      ''__import__'',
      ''eval'' @ bs # ''s*'' @ bs # ''('',
      ''exec'' @ bs # ''s*'' @ bs # ''('',
      ''open'' @ bs # ''s*'' @ bs # ''('',
      ''file'' @ bs # ''s*'' @ bs # ''('',
      ''input'' @ bs # ''s*'' @ bs # ''('',
      ''os'' @ bs # ''.'',
      ''subprocess'' @ bs # ''.'',
      ''shutil'' @ bs # ''.'',
      ''pathlib'' @ bs # ''.Path.*unlink'',
      bs # ''.remove'' @ bs # ''s*'' @ bs # ''('',
      bs # ''.delete'' @ bs # ''s*'' @ bs # ''('',
      bs # ''.rmdir'' @ bs # ''s*'' @ bs # ''('']"

definition violation_prefix :: string where
  "violation_prefix = ''Operaci'' @ CHR 0xF3 # ''n no permitida detectada: ''"

definition validate_code :: "string \<Rightarrow> bool \<times> string" where
  "validate_code code =
     (case find (\<lambda>pattern. re_search pattern code) FORBIDDEN_PATTERNS of
        Some pattern \<Rightarrow> (False, violation_prefix @ pattern)
      | None \<Rightarrow> (True, []))"



subsection \<open>Python values and the interpreter\<close>

text \<open>
  The values the engine handles: the modules and classes it puts in the namespace, the dicts
  it shares, objects with an identity, and the closure \<open>capture_map\<close>, which holds the
  constructor it wraps.
\<close>

datatype pymodule = Geopandas | Pandas | Numpy | Folium

datatype pyclass = MapClass | MarkerClusterClass | HeatMapClass | GeoDataFrameClass

datatype pyval =
    PyNone
  | PyInt int
  | PyStr string
  | PyBuiltins
  | PyLayers
  | PyModule pymodule
  | PyClass pyclass
  | PyObject pyclass nat
  | PyCaptureMap pyval

text \<open>
  An exception: the name of its type, \<open>str(e)\<close>, and whether it is an instance of
  \<open>Exception\<close> (\<open>KeyboardInterrupt\<close>, \<open>SystemExit\<close>, \<open>GeneratorExit\<close> and \<open>BaseException\<close> itself
  are not).
\<close>

record pyexc =
  exc_kind :: string
  exc_msg :: string
  is_exception :: bool

text \<open>
  The engine reads and writes one attribute, \<open>Map\<close>. The attribute state gives, for each
  object, what its attribute \<open>Map\<close> holds; \<open>folium.Map\<close> is the entry of \<open>PyModule Folium\<close>.
\<close>

type_synonym attrs = "pyval \<Rightarrow> pyval option"

type_synonym namespace = "(string \<times> pyval) list"

definition quote :: "string \<Rightarrow> string" where
  "quote s = CHR 0x27 # s @ [CHR 0x27]"

fun class_name :: "pyclass \<Rightarrow> string" where
  "class_name MapClass = ''Map''"
| "class_name MarkerClusterClass = ''MarkerCluster''"
| "class_name HeatMapClass = ''HeatMap''"
| "class_name GeoDataFrameClass = ''GeoDataFrame''"

fun pymodule_name :: "pymodule \<Rightarrow> string" where
  "pymodule_name Geopandas = ''geopandas''"
| "pymodule_name Pandas = ''pandas''"
| "pymodule_name Numpy = ''numpy''"
| "pymodule_name Folium = ''folium''"

text \<open>\<open>type(v).__name__\<close>\<close>

fun type_name :: "pyval \<Rightarrow> string" where
  "type_name PyNone = ''NoneType''"
| "type_name (PyInt i) = ''int''"
| "type_name (PyStr s) = ''str''"
| "type_name PyBuiltins = ''dict''"
| "type_name PyLayers = ''dict''"
| "type_name (PyModule m) = ''module''"
| "type_name (PyClass c) = ''type''"
| "type_name (PyObject c i) = class_name c"
| "type_name (PyCaptureMap f) = ''function''"

definition AttributeError :: "string \<Rightarrow> pyexc" where
  "AttributeError msg = \<lparr>exc_kind = ''AttributeError'', exc_msg = msg, is_exception = True\<rparr>"

definition TypeError :: "string \<Rightarrow> pyexc" where
  "TypeError msg = \<lparr>exc_kind = ''TypeError'', exc_msg = msg, is_exception = True\<rparr>"

definition KeyError :: "string \<Rightarrow> pyexc" where
  "KeyError msg = \<lparr>exc_kind = ''KeyError'', exc_msg = msg, is_exception = True\<rparr>"

text \<open>\<open>obj.Map\<close>: the objects of the model carry no attribute \<open>Map\<close> other than a stored one.\<close>

definition getattr_Map :: "attrs \<Rightarrow> pyval \<Rightarrow> pyexc + pyval" where
  "getattr_Map w obj =
     (case w obj of
        Some v \<Rightarrow> Inr v
      | None \<Rightarrow>
          Inl (AttributeError
            ((case obj of
                PyModule m \<Rightarrow> ''module '' @ quote (pymodule_name m)
              | _ \<Rightarrow> quote (type_name obj) @ '' object'')
             @ '' has no attribute '' @ quote ''Map'')))"

text \<open>
  \<open>obj.Map = v\<close>: \<open>None\<close>, numbers, text and dicts refuse the assignment; modules, classes,
  functions and the instances of the library classes accept it.
\<close>

fun accepts_attributes :: "pyval \<Rightarrow> bool" where
  "accepts_attributes PyNone = False"
| "accepts_attributes (PyInt i) = False"
| "accepts_attributes (PyStr s) = False"
| "accepts_attributes PyBuiltins = False"
| "accepts_attributes PyLayers = False"
| "accepts_attributes (PyModule m) = True"
| "accepts_attributes (PyClass c) = True"
| "accepts_attributes (PyObject c i) = True"
| "accepts_attributes (PyCaptureMap f) = True"

definition setattr_Map :: "pyval \<Rightarrow> pyval \<Rightarrow> attrs \<Rightarrow> pyexc + attrs" where
  "setattr_Map obj v w =
     (if accepts_attributes obj then Inr (w(obj \<mapsto> v))
      else Inl (AttributeError
             (quote (type_name obj) @ '' object has no attribute '' @ quote ''Map'')))"

text \<open>
  \<open>isinstance(v, cls)\<close>: the second argument must be a class; a function there raises
  \<open>TypeError\<close>. None of the four classes derives from another.
\<close>

definition isinstance_message :: string where
  "isinstance_message = ''isinstance() arg 2 must be a type, a tuple of types, or a union''"

definition isinstance :: "pyval \<Rightarrow> pyval \<Rightarrow> pyexc + bool" where
  "isinstance v cls =
     (case cls of
        PyClass c \<Rightarrow> Inr (case v of PyObject c' i \<Rightarrow> c' = c | _ \<Rightarrow> False)
      | _ \<Rightarrow> Inl (TypeError isinstance_message))"

text \<open>
  One run of \<open>exec(code, exec_globals)\<close> under \<open>redirect_stdout\<close>, as the engine sees it: the
  text written to the buffer, the objects \<open>capture_map\<close> appended to \<open>self.generated_maps\<close>
  in the order of its calls, the namespace and the attribute state as the script leaves
  them, and the exception that ended the run, if one did.
\<close>

record run =
  run_stdout :: string
  run_captured :: "pyval list"
  run_globals :: namespace
  run_attrs :: attrs
  run_raised :: "pyexc option"

text \<open>
  The Python runtime is a parameter: \<open>py_exec\<close> gives the run of a script from a namespace
  and an attribute state, \<open>None\<close> when the script never finishes; \<open>format_exc\<close> is
  \<open>traceback.format_exc()\<close> for the exception being handled.
\<close>

record runtime =
  py_exec :: "string \<Rightarrow> namespace \<Rightarrow> attrs \<Rightarrow> run option"
  format_exc :: "pyexc \<Rightarrow> string"

subsection \<open>The engine\<close>

record engine =
  engine_layers :: namespace
  generated_maps :: "pyval list"
  generated_figures :: "pyval list"

text \<open>
  The dict \<open>execute\<close> returns. \<open>traceback\<close> is present on the path of the handler only,
  \<open>variables\<close> on the path of success only.
\<close>

record exec_result =
  success :: bool
  error :: "string option"
  traceback :: "string option"
  output_text :: string
  result :: pyval
  result_maps :: "pyval list"
  figures :: "pyval list"
  variables :: "(string \<times> string) list option"

datatype exec_return = Returns exec_result | Raises pyexc | NeverReturns

definition ALLOWED_MODULES :: namespace where
  "ALLOWED_MODULES =
     [(''geopandas'', PyModule Geopandas), (''gpd'', PyModule Geopandas),
      (''pandas'', PyModule Pandas), (''pd'', PyModule Pandas),
      (''numpy'', PyModule Numpy), (''np'', PyModule Numpy),
      (''folium'', PyModule Folium),
      (''MarkerCluster'', PyClass MarkerClusterClass), (''HeatMap'', PyClass HeatMapClass)]"

definition safe_chars :: string where
  "safe_chars = ''abcdefghijklmnopqrstuvwxyzABCDEFGHIJKLMNOPQRSTUVWXYZ0123456789_''"

text \<open>\<open>re.sub(r'[^a-zA-Z0-9_]', '_', name)\<close>\<close>

definition safe_name :: "string \<Rightarrow> string" where
  "safe_name layer_name = map (\<lambda>c. if c \<in> set safe_chars then c else CHR ''_'') layer_name"

text \<open>
  The namespace before the run: the restricted builtins, the allowed modules, the dict of
  layers under two names, then each layer under its sanitised name, in the order of the dict.
\<close>

definition exec_globals_of :: "namespace \<Rightarrow> namespace" where
  "exec_globals_of ls =
     fold (\<lambda>(layer_name, frame) g. AList.update (safe_name layer_name) frame g) ls
       ((''__builtins__'', PyBuiltins) # ALLOWED_MODULES
          @ [(''layers'', PyLayers), (''capas'', PyLayers)])"

definition RESULT_NAMES :: "string list" where
  "RESULT_NAMES = [''resultado'', ''result'', ''output'', ''mapa'', ''map'', ''gdf'', ''df'']"

fun find_result :: "string list \<Rightarrow> namespace \<Rightarrow> pyval" where
  "find_result [] g = PyNone"
| "find_result (var_name # rest) g =
     (case map_of g var_name of
        Some v \<Rightarrow> if v \<noteq> PyNone then v else find_result rest g
      | None \<Rightarrow> find_result rest g)"

text \<open>
  The loop over \<open>exec_globals.items()\<close> that adds the maps bound in the namespace. It looks
  \<open>folium.Map\<close> up at every item; the exception of a lookup or of \<open>isinstance\<close> ends the loop
  with the list as it stands.
\<close>

fun collect_maps :: "attrs \<Rightarrow> namespace \<Rightarrow> pyval list \<Rightarrow> pyexc option \<times> pyval list" where
  "collect_maps w [] gm = (None, gm)"
| "collect_maps w ((var_name, var_value) # rest) gm =
     (case getattr_Map w (PyModule Folium) of
        Inl e \<Rightarrow> (Some e, gm)
      | Inr cls \<Rightarrow>
          (case isinstance var_value cls of
             Inl e \<Rightarrow> (Some e, gm)
           | Inr is_map \<Rightarrow>
               if is_map \<and> var_value \<notin> set gm then collect_maps w rest (gm @ [var_value])
               else collect_maps w rest gm))"

text \<open>The dict of the \<open>except\<close> clause.\<close>

definition failure :: "runtime \<Rightarrow> pyexc \<Rightarrow> string \<Rightarrow> exec_result" where
  "failure rt e out =
     \<lparr>success = False, error = Some (exc_kind e @ '': '' @ exc_msg e),
      traceback = Some (format_exc rt e), output_text = out, result = PyNone, result_maps = [],
      figures = [], variables = None\<rparr>"

definition variables_of :: "namespace \<Rightarrow> (string \<times> string) list" where
  "variables_of g =
     map (\<lambda>(k, v). (k, type_name v))
       (filter (\<lambda>(k, v). \<not> (k \<noteq> [] \<and> hd k = CHR ''_'') \<and> k \<notin> fst ` set ALLOWED_MODULES) g)"

text \<open>
  The \<open>try\<close> block with its \<open>except Exception\<close> clause, after the run \<open>r\<close>: what it hands to
  the \<open>finally\<close> clause (a value to return, or an exception on its way out) and the list
  \<open>self.generated_maps\<close>.
\<close>

definition try_block :: "runtime \<Rightarrow> run \<Rightarrow> exec_return \<times> pyval list" where
  "try_block rt r =
     (case run_raised r of
        Some e \<Rightarrow>
          (if is_exception e then Returns (failure rt e (run_stdout r)) else Raises e,
           run_captured r)
      | None \<Rightarrow>
          (case collect_maps (run_attrs r) (run_globals r) (run_captured r) of
             (Some e, gm) \<Rightarrow>
               (if is_exception e then Returns (failure rt e (run_stdout r)) else Raises e, gm)
           | (None, gm) \<Rightarrow>
               (Returns \<lparr>success = True, error = None, traceback = None,
                         output_text = run_stdout r,
                         result = find_result RESULT_NAMES (run_globals r),
                         result_maps = gm, figures = [],
                         variables = Some (variables_of (run_globals r))\<rparr>, gm)))"

text \<open>
  \<open>exec_globals['folium'].Map = v\<close>, the statement that installs \<open>capture_map\<close> before the
  run and the one of the \<open>finally\<close> clause: the subscript raises \<open>KeyError\<close> when the name
  is gone from the namespace, the assignment raises when the name is bound to an object
  that takes no attributes, and it writes to whatever object the name is bound to.
\<close>

definition assign_folium_Map :: "namespace \<Rightarrow> pyval \<Rightarrow> attrs \<Rightarrow> pyexc + attrs" where
  "assign_folium_Map g v w =
     (case map_of g ''folium'' of
        None \<Rightarrow> Inl (KeyError (quote ''folium''))
      | Some target \<Rightarrow> setattr_Map target v w)"

text \<open>
  \<open>execute\<close>, on the engine and the attribute state, which it returns as it leaves them. An
  exception of the \<open>finally\<close> clause replaces the value being returned.
\<close>

definition execute ::
  "runtime \<Rightarrow> string \<Rightarrow> engine \<times> attrs \<Rightarrow> exec_return \<times> engine \<times> attrs"
where
  "execute rt code ew =
     (case ew of (self, w) \<Rightarrow>
        case validate_code code of
          (False, err) \<Rightarrow>
            (Returns \<lparr>success = False, error = Some err, traceback = None, output_text = [],
                       result = PyNone, result_maps = [], figures = [], variables = None\<rparr>,
             self, w)
        | (True, err) \<Rightarrow>
            let exec_globals = exec_globals_of (engine_layers self);
                self1 = self\<lparr>generated_maps := [], generated_figures := []\<rparr>
            in case getattr_Map w (PyModule Folium) of
                 Inl e \<Rightarrow> (Raises e, self1, w)
               | Inr original_folium_map \<Rightarrow>
                   (case assign_folium_Map exec_globals (PyCaptureMap original_folium_map) w of
                      Inl e \<Rightarrow> (Raises e, self1, w)
                    | Inr w1 \<Rightarrow>
                        (case py_exec rt code exec_globals w1 of
                           None \<Rightarrow> (NeverReturns, self1, w1)
                         | Some r \<Rightarrow>
                             (case try_block rt r of
                                (ret, gm) \<Rightarrow>
                                  (case assign_folium_Map (run_globals r) original_folium_map
                                          (run_attrs r) of
                                     Inl e \<Rightarrow>
                                       (Raises e, self1\<lparr>generated_maps := gm\<rparr>, run_attrs r)
                                   | Inr w2 \<Rightarrow>
                                       (ret, self1\<lparr>generated_maps := gm\<rparr>, w2))))))"

subsection \<open>Scripts and a runtime to evaluate on\<close>

text \<open>
  An engine with one layer and a map left from an earlier run, the attribute state in which
  \<open>folium.Map\<close> is the class, and four scripts with what Python does on each: the first
  builds two maps and names the second \<open>mapa\<close>; the second rebinds the name \<open>folium\<close>; the
  third prints and divides by zero; the fourth finds \<open>BaseException\<close> among the subclasses
  of \<open>object\<close> and raises it.
\<close>

definition engine1 :: engine where
  "engine1 = \<lparr>engine_layers = [(''vias'', PyObject GeoDataFrameClass 4)],
     generated_maps = [PyObject MapClass 9], generated_figures = []\<rparr>"

definition attrs1 :: attrs where
  "attrs1 = (\<lambda>obj. if obj = PyModule Folium then Some (PyClass MapClass) else None)"

definition script_two_maps :: string where
  "script_two_maps = ''m1 = folium.Map()'' @ CHR 0x0A # ''mapa = folium.Map()''"

definition script_rebind :: string where
  "script_rebind = ''folium = pd''"

definition script_print_raise :: string where
  "script_print_raise = ''print(1)'' @ CHR 0x0A # ''x = 1/0''"

definition script_base_exception :: string where
  "script_base_exception =
     ''raise [c for c in type(0).__base__.__subclasses__() if c.__name__ == '' @ CHR 0x27 #
     ''BaseException'' @ CHR 0x27 # ''][0](2)''"

definition python1 :: runtime where
  "python1 =
     \<lparr>py_exec = (\<lambda>code g w.
        if code = script_two_maps then
          Some \<lparr>run_stdout = [],
                run_captured = [PyObject MapClass 11, PyObject MapClass 12],
                run_globals = AList.update ''mapa'' (PyObject MapClass 12)
                                (AList.update ''m1'' (PyObject MapClass 11) g),
                run_attrs = w, run_raised = None\<rparr>
        else if code = script_rebind then
          Some \<lparr>run_stdout = [], run_captured = [],
                run_globals = AList.update ''folium'' (PyModule Pandas) g,
                run_attrs = w, run_raised = None\<rparr>
        else if code = script_print_raise then
          Some \<lparr>run_stdout = ''1'' @ [CHR 0x0A], run_captured = [], run_globals = g,
                run_attrs = w,
                run_raised = Some \<lparr>exc_kind = ''ZeroDivisionError'',
                                    exc_msg = ''division by zero'', is_exception = True\<rparr>\<rparr>
        else if code = script_base_exception then
          Some \<lparr>run_stdout = [], run_captured = [], run_globals = g, run_attrs = w,
                run_raised = Some \<lparr>exc_kind = ''BaseException'', exc_msg = ''2'',
                                    is_exception = False\<rparr>\<rparr>
        else None),
      format_exc = (\<lambda>e. ''Traceback (most recent call last):'' @ CHR 0x0A #
                          exc_kind e @ '': '' @ exc_msg e)\<rparr>"

section \<open>Properties of the data store\<close>

subsection \<open>Association lists and the scan loops\<close>

lemma map_of_update_same: "map_of (AList.update k v al) k = Some v"
  by (simp add: update_conv')

lemma map_of_update_other: "k' \<noteq> k \<Longrightarrow> map_of (AList.update k v al) k' = map_of al k'"
  by (simp add: update_conv')

lemma list_all_update:
  "list_all (\<lambda>(k, l). P l) al \<Longrightarrow> P v \<Longrightarrow> list_all (\<lambda>(k, l). P l) (AList.update k v al)"
  by (induction al) auto

lemma length_keys_card: "distinct (map fst al) \<Longrightarrow> length al = card (fst ` set al)"
proof -
  assume "distinct (map fst al)"
  then have "card (set (map fst al)) = length (map fst al)" by (rule distinct_card)
  then show ?thesis by simp
qed

lemma analyze_layer_fresh:
  "analyze_layer h f = Some l \<Longrightarrow> name l = stem f \<and> path l = f \<and> gdf l = None \<and> \<not> loaded l"
  by (auto simp: analyze_layer_def split: option.splits)

lemma analyze_layer_total: "\<exists>l. analyze_layer h f = Some l"
  by (simp add: analyze_layer_def split: option.splits)

lemma scan_layers_loop_all:
  assumes "list_all (\<lambda>(k, l). P l) ls" and "\<And>l. gdf l = None \<Longrightarrow> \<not> loaded l \<Longrightarrow> P l"
  shows "list_all (\<lambda>(k, l). P l) (scan_layers_loop h files pr ls)"
  using assms(1)
proof (induction files arbitrary: pr ls)
  case Nil
  then show ?case by simp
next
  case (Cons f files)
  obtain l where l: "analyze_layer h f = Some l" using analyze_layer_total by blast
  then have "P l" using analyze_layer_fresh assms(2) by blast
  then have "list_all (\<lambda>(k, l). P l) (AList.update (name l) l ls)"
    using Cons.prems by (rule list_all_update [rotated])
  then show ?case using Cons l by (simp add: Let_def)
qed

lemma scan_layers_loop_distinct:
  "distinct (map fst ls) \<Longrightarrow> distinct (map fst (scan_layers_loop h files pr ls))"
  by (induction files arbitrary: pr ls) (auto simp: Let_def distinct_update split: option.splits)

lemma scan_layers_loop_keys:
  "pr \<subseteq> fst ` set ls \<Longrightarrow>
   fst ` set (scan_layers_loop h files pr ls) =
     fst ` set ls \<union> stem ` {f \<in> set files. lower (suffix f) \<in> LAYER_EXTENSIONS}"
proof (induction files arbitrary: pr ls)
  case Nil
  then show ?case by simp
next
  case (Cons f files)
  obtain l where l: "analyze_layer h f = Some l" using analyze_layer_total by blast
  then have nl: "name l = stem f" using analyze_layer_fresh by blast
  show ?case
  proof (cases "lower (suffix f) \<in> LAYER_EXTENSIONS")
    case False
    then show ?thesis using Cons by auto
  next
    case True
    show ?thesis
    proof (cases "lower (suffix f) = ''.shp'' \<and> stem f \<in> pr")
      case skip: True
      then have "stem f \<in> fst ` set ls" using Cons.prems by blast
      moreover have "fst ` set (scan_layers_loop h (f # files) pr ls) =
          fst ` set ls \<union> stem ` {f \<in> set files. lower (suffix f) \<in> LAYER_EXTENSIONS}"
        using skip True Cons.IH [OF Cons.prems] by simp
      ultimately show ?thesis using True by auto
    next
      case noskip: False
      let ?pr = "if lower (suffix f) = ''.shp'' then insert (stem f) pr else pr"
      let ?ls = "AList.update (stem f) l ls"
      have sub: "?pr \<subseteq> fst ` set ?ls" using Cons.prems by (auto simp: dom_update)
      have "scan_layers_loop h (f # files) pr ls = scan_layers_loop h files ?pr ?ls"
        using True noskip l nl by (auto simp: Let_def)
      then have "fst ` set (scan_layers_loop h (f # files) pr ls) =
          fst ` set ?ls \<union> stem ` {f \<in> set files. lower (suffix f) \<in> LAYER_EXTENSIONS}"
        using Cons.IH [OF sub] by simp
      then show ?thesis using True by (auto simp: dom_update)
    qed
  qed
qed

lemma scan_documents_loop_distinct:
  "distinct (map fst ds) \<Longrightarrow> distinct (map fst (scan_documents_loop h files ds))"
  by (induction files arbitrary: ds) (auto simp: distinct_update)

lemma scan_documents_loop_keys:
  "fst ` set (scan_documents_loop h files ds) =
     fst ` set ds \<union> stem ` {f \<in> set files. lower (suffix f) \<in> DOC_EXTENSIONS \<and> is_file h f}"
  by (induction files arbitrary: ds) (auto simp: dom_update)

lemma scan_maps_loop_distinct:
  "distinct (map fst ms) \<Longrightarrow> distinct (map fst (scan_maps_loop files ms))"
  by (induction files arbitrary: ms) (auto simp: distinct_update)

lemma scan_maps_loop_keys:
  "fst ` set (scan_maps_loop files ms) =
     fst ` set ms \<union> stem ` {f \<in> set files. lower (suffix f) \<in> MAP_EXTENSIONS}"
  by (induction files arbitrary: ms) (auto simp: dom_update)


subsection \<open>Loading\<close>

lemma notify_observers_host [simp]: "next_handle (notify_observers s ev h) = next_handle h"
  "read_log (notify_observers s ev h) = read_log h"
  by (simp_all add: notify_observers_def)

text \<open>
  C9: for a name that is not a key of \<open>self.layers\<close>, \<open>load_layer\<close> returns \<open>None\<close> and
  leaves the store and the host untouched: nothing is read and no observer is called.
\<close>

theorem load_layer_unknown_name:
  "map_of (layers s) n = None \<Longrightarrow> load_layer n (s, h) = (None, s, h)"
  by (simp add: load_layer_def)

theorem load_layer_unknown_name_witness:
  "map_of (layers store1) ''rios'' = None
   \<and> load_layer ''rios'' (store1, host1) = (None, store1, host1)"
  using load_layer_unknown_name [of store1 "''rios''" host1]
  by (simp add: store1_def new_store_def)

lemma load_layer_hit:
  "map_of (layers s) n = Some l \<Longrightarrow> gdf l = Some g \<Longrightarrow> load_layer n (s, h) = (Some g, s, h)"
  by (simp add: load_layer_def)

lemma load_layer_Some_cached:
  "load_layer n (s, h) = (Some g, s', h') \<Longrightarrow> \<exists>l. map_of (layers s') n = Some l \<and> gdf l = Some g"
  by (auto simp: load_layer_def Let_def map_of_update_same split: option.splits if_splits)

text \<open>
  C6: when the entry of a name already holds a frame, \<open>load_layer\<close> returns that very frame
  and changes neither the store nor the host, so nothing is read again; and after any call
  that returned a frame, the next call for the same name returns the same frame from the
  state the first call left, and leaves that state as it is.
\<close>

theorem load_layer_cached:
  "(map_of (layers s) n = Some l \<and> gdf l = Some g \<longrightarrow> load_layer n (s, h) = (Some g, s, h))
   \<and> (load_layer n (s, h) = (Some g', s', h') \<longrightarrow> load_layer n (s', h') = (Some g', s', h'))"
  using load_layer_hit load_layer_Some_cached by blast

theorem load_layer_cached_witness:
  "map_of (layers store2) ''vias'' = Some vias_loaded \<and> gdf vias_loaded = Some 3
   \<and> load_layer ''vias'' (store2, host1) = (Some 3, store2, host1)
   \<and> fst (load_layer ''vias'' (store1, host1)) = Some 4
   \<and> load_layer ''vias'' (snd (load_layer ''vias'' (store1, host1)))
       = (Some 4, snd (load_layer ''vias'' (store1, host1)))"
proof -
  obtain s' h' where r: "load_layer ''vias'' (store1, host1) = (Some 4, s', h')"
    by (simp add: load_layer_def store1_def new_store_def host1_def vias_def Let_def)
  have c: "map_of (layers store2) ''vias'' = Some vias_loaded \<and> gdf vias_loaded = Some 3"
    by (simp add: store2_def vias_loaded_def)
  show ?thesis
    using c r load_layer_cached [of store2 "''vias''" vias_loaded 3 host1 4 store2 host1]
      load_layer_cached [of store1 "''vias''" vias 0 host1 4 s' h']
    by simp
qed

text \<open>
  C8, as amended: for an entry without a frame, when the read of its file raises,
  \<open>load_layer\<close> returns \<open>None\<close> and leaves the store as it was (the entry keeps
  \<open>loaded = False\<close> and no frame; there is no failed state), the read being the only
  trace; when the read returns, the new frame is returned and cached on the entry with
  \<open>loaded = True\<close>.
\<close>

theorem load_layer_parse_outcome:
  assumes "map_of (layers s) n = Some l" and "gdf l = None"
  shows "(\<not> read_ok h (path l) \<longrightarrow>
            load_layer n (s, h) = (None, s, h\<lparr>read_log := read_log h @ [path l]\<rparr>))
       \<and> (read_ok h (path l) \<longrightarrow>
            (\<exists>s' h'. load_layer n (s, h) = (Some (next_handle h), s', h')
               \<and> map_of (layers s') n = Some (l\<lparr>gdf := Some (next_handle h), loaded := True\<rparr>)
               \<and> read_log h' = read_log h @ [path l]))"
  using assms by (simp add: load_layer_def Let_def map_of_update_same)

theorem load_layer_parse_outcome_witness:
  "map_of (layers store1) ''vias'' = Some vias \<and> gdf vias = None
   \<and> \<not> read_ok host_unreadable (path vias) \<and> read_ok host1 (path vias)
   \<and> load_layer ''vias'' (store1, host_unreadable)
       = (None, store1, host_unreadable\<lparr>read_log := [''kb/capas/vias.shp'']\<rparr>)
   \<and> fst (load_layer ''vias'' (store1, host1)) = Some 4
   \<and> map_of (layers (fst (snd (load_layer ''vias'' (store1, host1))))) ''vias''
       = Some (vias\<lparr>gdf := Some 4, loaded := True\<rparr>)"
proof -
  have a: "map_of (layers store1) ''vias'' = Some vias" and b: "gdf vias = None"
    by (simp_all add: store1_def vias_def)
  have c: "\<not> read_ok host_unreadable (path vias)" and d: "read_ok host1 (path vias)"
    and e: "read_log host_unreadable = []" and f: "next_handle host1 = 4"
    and g: "path vias = ''kb/capas/vias.shp''"
    by (simp_all add: host_unreadable_def host1_def vias_def)
  show ?thesis
    using a b c d e f g load_layer_parse_outcome [OF a b, of host_unreadable]
      load_layer_parse_outcome [OF a b, of host1]
    by auto
qed

text \<open>
  C8 as stated fails: after a load whose read raised, the entry and the summary of the store
  are those of before the call, so nothing marks the entry as failed.
\<close>

theorem load_layer_failure_leaves_entry_counterexample:
  "fst (load_layer ''vias'' (store1, host_unreadable)) = None
   \<and> map_of (layers (fst (snd (load_layer ''vias'' (store1, host_unreadable))))) ''vias''
       = map_of (layers store1) ''vias''
   \<and> get_summary (fst (snd (load_layer ''vias'' (store1, host_unreadable)))) = get_summary store1"
  by (simp add: load_layer_def store1_def new_store_def host_unreadable_def host1_def vias_def)


subsection \<open>Connecting\<close>

lemma connect_layers:
  "path_exists h p \<Longrightarrow>
   layers (fst (snd (connect p (s, h)))) =
     scan_layers_loop h
       (rglob h (if path_exists h (joinpath p ''capas'') then joinpath p ''capas'' else p)) {} []"
  by (simp add: connect_def scan_folder_def scan_layers_def scan_documents_def scan_maps_def
      Let_def)

lemma connect_documents:
  "path_exists h p \<Longrightarrow>
   documents (fst (snd (connect p (s, h)))) =
     scan_documents_loop h
       (rglob h (if path_exists h (joinpath p ''documentos'') then joinpath p ''documentos''
                 else p)) []"
  by (simp add: connect_def scan_folder_def scan_layers_def scan_documents_def scan_maps_def
      Let_def)

lemma connect_maps:
  "path_exists h p \<Longrightarrow>
   maps (fst (snd (connect p (s, h)))) =
     scan_maps_loop
       (rglob h (if path_exists h (joinpath p ''mapas'') then joinpath p ''mapas'' else p)) []"
  by (simp add: connect_def scan_folder_def scan_layers_def scan_documents_def scan_maps_def
      Let_def)

lemma connect_missing: "\<not> path_exists h p \<Longrightarrow> fst (snd (connect p (s, h))) = s"
  by (simp add: connect_def)

lemma connect_host:
  "path_exists h p \<Longrightarrow>
   next_handle (snd (snd (connect p (s, h)))) = next_handle h
   \<and> read_log (snd (snd (connect p (s, h)))) = read_log h
   \<and> read_ok (snd (snd (connect p (s, h)))) = read_ok h"
  by (simp add: connect_def scan_folder_def Let_def notify_observers_def split_def)

lemma connect_result:
  "path_exists h p \<Longrightarrow>
   fst (connect p (s, h)) =
     Inr (\<lparr>capas = length (layers (fst (snd (connect p (s, h))))),
           documentos = length (documents (fst (snd (connect p (s, h))))),
           mapas = length (maps (fst (snd (connect p (s, h)))))\<rparr>, now h)"
  by (simp add: connect_def scan_folder_def Let_def split_def)

lemma connect_fresh:
  "path_exists h p \<Longrightarrow>
   list_all (\<lambda>(k, l). gdf l = None \<and> \<not> loaded l) (layers (fst (snd (connect p (s, h)))))"
  by (simp add: connect_layers scan_layers_loop_all)

lemma loaded_iff_handle_connect:
  "loaded_iff_handle s \<Longrightarrow> loaded_iff_handle (fst (snd (connect p (s, h))))"
proof (cases "path_exists h p")
  case True
  then show ?thesis
    unfolding loaded_iff_handle_def by (simp add: connect_layers scan_layers_loop_all)
next
  case False
  then show "loaded_iff_handle s \<Longrightarrow> ?thesis" by (simp add: connect_missing)
qed

lemma list_all_map_of:
  "list_all (\<lambda>(k, l). P l) al \<Longrightarrow> map_of al n = Some l \<Longrightarrow> P l"
  by (induction al) (auto split: if_splits)

lemma loaded_iff_handle_load_layer:
  "loaded_iff_handle s \<Longrightarrow> loaded_iff_handle (fst (snd (load_layer n (s, h))))"
  unfolding loaded_iff_handle_def
  by (auto simp: load_layer_def Let_def split: option.splits intro!: list_all_update)

lemma loaded_iff_handle_load_all_loop:
  "loaded_iff_handle (fst sh) \<Longrightarrow> loaded_iff_handle (fst (snd (load_all_loop ns acc sh)))"
proof (induction ns arbitrary: acc sh)
  case Nil
  then show ?case by simp
next
  case (Cons n ns)
  obtain r s' h' where r: "load_layer n sh = (r, s', h')" by (metis prod_cases3)
  have "loaded_iff_handle s'"
    using loaded_iff_handle_load_layer [of "fst sh" n "snd sh"] Cons.prems r by simp
  then show ?case using Cons.IH [of "(s', h')"] r by (cases r) simp_all
qed

lemma loaded_iff_handle_load_all:
  "loaded_iff_handle s \<Longrightarrow> loaded_iff_handle (fst (snd (load_all_layers (s, h))))"
  by (simp add: load_all_layers_def loaded_iff_handle_load_all_loop)

lemma filter_cong_list_all:
  "list_all (\<lambda>x. P x = Q x) xs \<Longrightarrow> filter P xs = filter Q xs"
  by (induction xs) auto

lemma loaded_count:
  "loaded_iff_handle s \<Longrightarrow>
   capas_cargadas (get_summary s) = length (filter (\<lambda>(k, l). gdf l \<noteq> None) (layers s))"
proof -
  assume "loaded_iff_handle s"
  then have "list_all (\<lambda>x. (case x of (k, l) \<Rightarrow> loaded l) = (case x of (k, l) \<Rightarrow> gdf l \<noteq> None))
      (layers s)"
    unfolding loaded_iff_handle_def by (simp add: split_def)
  then have "filter (\<lambda>(k, l). loaded l) (layers s) = filter (\<lambda>(k, l). gdf l \<noteq> None) (layers s)"
    by (rule filter_cong_list_all)
  then show ?thesis by (simp add: get_summary_def)
qed

text \<open>
  C10: a new store satisfies the invariant that an entry is flagged \<open>loaded\<close> exactly when
  it holds a frame; \<open>connect\<close>, \<open>load_layer\<close> and \<open>load_all_layers\<close> preserve it; and
  under it the count \<open>capas_cargadas\<close> of \<open>get_summary\<close> is the number of entries that hold
  a frame.
\<close>

theorem loaded_flag_invariant:
  "loaded_iff_handle new_store
   \<and> (loaded_iff_handle s \<longrightarrow>
        loaded_iff_handle (fst (snd (connect p (s, h))))
        \<and> loaded_iff_handle (fst (snd (load_layer n (s, h))))
        \<and> loaded_iff_handle (fst (snd (load_all_layers (s, h))))
        \<and> capas_cargadas (get_summary s)
            = length (filter (\<lambda>(k, l). gdf l \<noteq> None) (layers s)))"
  using loaded_iff_handle_connect loaded_iff_handle_load_layer loaded_iff_handle_load_all
    loaded_count
  by (simp add: loaded_iff_handle_def new_store_def)

theorem loaded_flag_invariant_witness:
  "loaded_iff_handle store1
   \<and> loaded_iff_handle (fst (snd (connect ''kb'' (store1, host1))))
   \<and> loaded_iff_handle (fst (snd (load_layer ''vias'' (store1, host1))))
   \<and> loaded_iff_handle (fst (snd (load_all_layers (store1, host1))))
   \<and> capas_cargadas (get_summary (fst (snd (load_all_layers (store1, host1))))) = 1
   \<and> capas_cargadas (get_summary store1) = 0"
proof -
  have a: "loaded_iff_handle store1"
    by (simp add: loaded_iff_handle_def store1_def new_store_def vias_def)
  have b: "layers (fst (snd (load_all_layers (store1, host1))))
             = [(''vias'', vias\<lparr>gdf := Some 4, loaded := True\<rparr>)]"
    by (simp add: load_all_layers_def load_layer_def store1_def new_store_def host1_def
        vias_def Let_def)
  have c: "capas_cargadas (get_summary (fst (snd (load_all_layers (store1, host1))))) = 1"
    by (simp add: get_summary_def b)
  show ?thesis
    using a c loaded_flag_invariant [of store1 "''kb''" host1 "''vias''"]
    by (simp add: store1_def new_store_def vias_def)
qed


lemma lower_simps:
  "lower ''.shp'' = ''.shp''" "lower ''.dbf'' = ''.dbf''" "lower ''.pdf'' = ''.pdf''"
  "lower ''.txt'' = ''.txt''" "lower ''.qgz'' = ''.qgz''"
  by (simp_all add: lower_def lower_char_def upper_chars_def lower_chars_def)

lemma host2_paths:
  "suffix ''kb/vias.shp'' = ''.shp''" "stem ''kb/vias.shp'' = ''vias''"
  "suffix ''kb/sub/vias.shp'' = ''.shp''" "stem ''kb/sub/vias.shp'' = ''vias''"
  "suffix ''kb/vias.dbf'' = ''.dbf''" "stem ''kb/vias.dbf'' = ''vias''"
  "suffix ''kb/a.pdf'' = ''.pdf''" "stem ''kb/a.pdf'' = ''a''"
  "suffix ''kb/a.txt'' = ''.txt''" "stem ''kb/a.txt'' = ''a''"
  "suffix ''kb/plan.qgz'' = ''.qgz''" "stem ''kb/plan.qgz'' = ''plan''"
  by (simp_all add: suffix_def stem_def path_name_def)

lemma host2_scan:
  "layers (fst (snd (connect ''kb'' (s, host2)))) = [(''vias'', vias_scanned)]"
  "length (documents (fst (snd (connect ''kb'' (s, host2))))) = 1"
  "maps (fst (snd (connect ''kb'' (s, host2)))) = [(''plan'', ''kb/plan.qgz'')]"
  by (simp_all add: connect_def scan_folder_def scan_layers_def scan_documents_def scan_maps_def
      Let_def host2_def host1_def joinpath_def host2_paths lower_simps LAYER_EXTENSIONS_def
      DOC_EXTENSIONS_def MAP_EXTENSIONS_def analyze_layer_def format_of_def vias_scanned_def)


lemma load_layer_reads:
  "map_of (layers s) n = Some l \<Longrightarrow> gdf l = None \<Longrightarrow>
   read_log (snd (snd (load_layer n (s, h)))) = read_log h @ [path l]"
  by (simp add: load_layer_def Let_def)

lemma connect_snd:
  "snd (connect p (s, h)) = (fst (snd (connect p (s, h))), snd (snd (connect p (s, h))))"
  by simp

text \<open>
  C7: a \<open>connect\<close> on an existing path leaves layers, documents and maps that do not depend
  on the store it started from; no layer entry holds a frame or is flagged loaded; and a
  \<open>load_layer\<close> that follows, for any name of the new catalog, reads the file of the entry
  again.
\<close>

theorem connect_replaces_entries:
  assumes "path_exists h p"
  shows "layers (fst (snd (connect p (s, h)))) = layers (fst (snd (connect p (s2, h))))
       \<and> documents (fst (snd (connect p (s, h)))) = documents (fst (snd (connect p (s2, h))))
       \<and> maps (fst (snd (connect p (s, h)))) = maps (fst (snd (connect p (s2, h))))
       \<and> list_all (\<lambda>(k, l). gdf l = None \<and> \<not> loaded l) (layers (fst (snd (connect p (s, h)))))
       \<and> (\<forall>n l. map_of (layers (fst (snd (connect p (s, h))))) n = Some l \<longrightarrow>
             read_log (snd (snd (load_layer n (snd (connect p (s, h))))))
               = read_log h @ [path l])"
proof -
  have "read_log (snd (snd (load_layer n (snd (connect p (s, h)))))) = read_log h @ [path l]"
    if m: "map_of (layers (fst (snd (connect p (s, h))))) n = Some l" for n l
  proof -
    have "gdf l = None"
      using list_all_map_of [OF connect_fresh [OF assms] m] by simp
    then show ?thesis
      using load_layer_reads [OF m, of "snd (snd (connect p (s, h)))"] connect_host [OF assms]
      by (simp add: connect_snd [symmetric])
  qed
  then show ?thesis
    using assms connect_fresh [OF assms, of s]
    by (simp add: connect_layers connect_documents connect_maps)
qed

theorem connect_replaces_entries_witness:
  "path_exists host2 ''kb''
   \<and> map_of (layers store2) ''vias'' = Some vias_loaded \<and> gdf vias_loaded = Some 3
   \<and> map_of (layers (fst (snd (connect ''kb'' (store2, host2))))) ''vias'' = Some vias_scanned
   \<and> layers (fst (snd (connect ''kb'' (store2, host2))))
       = layers (fst (snd (connect ''kb'' (new_store, host2))))
   \<and> read_log (snd (snd (load_layer ''vias'' (snd (connect ''kb'' (store2, host2))))))
       = [''kb/vias.shp'']"
proof -
  have a: "path_exists host2 ''kb''" by (simp add: host2_def host1_def)
  have b: "map_of (layers (fst (snd (connect ''kb'' (store2, host2))))) ''vias'' = Some vias_scanned"
    by (simp add: host2_scan)
  have c: "read_log host2 = []" "path vias_scanned = ''kb/vias.shp''"
    by (simp_all add: host2_def host1_def vias_scanned_def)
  show ?thesis
    using a b c connect_replaces_entries [OF a, of store2 new_store]
    by (simp add: store2_def vias_loaded_def)
qed


lemma scan_layers_loop_first_shp:
  assumes "\<forall>f \<in> set files. lower (suffix f) \<in> LAYER_EXTENSIONS \<and> stem f = n
             \<longrightarrow> lower (suffix f) = ''.shp''"
    and "(n \<in> pr) = (n \<in> fst ` set ls)"
  shows "map_of (scan_layers_loop h files pr ls) n =
     (case map_of ls n of
        Some e \<Rightarrow> Some e
      | None \<Rightarrow>
         (case find (\<lambda>f. lower (suffix f) \<in> LAYER_EXTENSIONS \<and> stem f = n) files of
            None \<Rightarrow> None
          | Some f \<Rightarrow> analyze_layer h f))"
  using assms
proof (induction files arbitrary: pr ls)
  case Nil
  then show ?case by (simp split: option.splits)
next
  case (Cons f files)
  obtain l where l: "analyze_layer h f = Some l" using analyze_layer_total by blast
  then have nl: "name l = stem f" using analyze_layer_fresh by blast
  have rest: "\<forall>f \<in> set files. lower (suffix f) \<in> LAYER_EXTENSIONS \<and> stem f = n
             \<longrightarrow> lower (suffix f) = ''.shp''"
    using Cons.prems(1) by simp
  have dom: "(n \<in> fst ` set ls) = (map_of ls n \<noteq> None)"
    by (simp add: map_of_eq_None_iff)
  show ?case
  proof (cases "lower (suffix f) \<in> LAYER_EXTENSIONS")
    case False
    then show ?thesis using Cons.IH [OF rest Cons.prems(2)] by (simp split: option.splits)
  next
    case True
    show ?thesis
    proof (cases "lower (suffix f) = ''.shp'' \<and> stem f \<in> pr")
      case skip: True
      have "stem f = n \<Longrightarrow> map_of ls n \<noteq> None"
        using skip Cons.prems(2) dom by auto
      then show ?thesis
        using skip True Cons.IH [OF rest Cons.prems(2)] by (auto split: option.splits)
    next
      case noskip: False
      let ?pr = "if lower (suffix f) = ''.shp'' then insert (stem f) pr else pr"
      let ?ls = "AList.update (stem f) l ls"
      have step: "scan_layers_loop h (f # files) pr ls = scan_layers_loop h files ?pr ?ls"
        using True noskip l nl by (auto simp: Let_def)
      show ?thesis
      proof (cases "stem f = n")
        case same: True
        then have shp: "lower (suffix f) = ''.shp''" using Cons.prems(1) True by simp
        then have "n \<notin> pr" using noskip same by simp
        then have none: "map_of ls n = None" using Cons.prems(2) dom by simp
        have inv: "(n \<in> ?pr) = (n \<in> fst ` set ?ls)" using shp same by (simp add: dom_update)
        show ?thesis
          using Cons.IH [OF rest inv] step none same True l
          by (simp add: update_conv' split: option.splits)
      next
        case other: False
        have inv: "(n \<in> ?pr) = (n \<in> fst ` set ?ls)"
          using other Cons.prems(2) by (auto simp: dom_update)
        show ?thesis
          using Cons.IH [OF rest inv] step other by (simp add: update_conv' split: option.splits)
      qed
    qed
  qed
qed


lemma connect_counts:
  assumes "path_exists h p"
  shows "fst (connect p (s, h)) =
      Inr (\<lparr>capas = card (stem ` {f \<in> set (rglob h (scanned_folder h p ''capas'')).
                                  is_layer_path f}),
            documentos = card (stem ` {f \<in> set (rglob h (scanned_folder h p ''documentos'')).
                                  is_document_path h f}),
            mapas = card (stem ` {f \<in> set (rglob h (scanned_folder h p ''mapas'')).
                                  is_map_path f})\<rparr>, now h)"
proof -
  let ?lf = "rglob h (scanned_folder h p ''capas'')"
  let ?df = "rglob h (scanned_folder h p ''documentos'')"
  let ?mf = "rglob h (scanned_folder h p ''mapas'')"
  have l: "length (scan_layers_loop h ?lf {} []) = card (stem ` {f \<in> set ?lf. is_layer_path f})"
    using length_keys_card [OF scan_layers_loop_distinct [of "[]" h ?lf "{}"]]
      scan_layers_loop_keys [of "{}" "[]" h ?lf]
    by (simp add: is_layer_path_def)
  have d: "length (scan_documents_loop h ?df []) =
      card (stem ` {f \<in> set ?df. is_document_path h f})"
    using length_keys_card [OF scan_documents_loop_distinct [of "[]" h ?df]]
      scan_documents_loop_keys [of h ?df "[]"]
    by (simp add: is_document_path_def)
  have m: "length (scan_maps_loop ?mf []) = card (stem ` {f \<in> set ?mf. is_map_path f})"
    using length_keys_card [OF scan_maps_loop_distinct [of "[]" ?mf]]
      scan_maps_loop_keys [of ?mf "[]"]
    by (simp add: is_map_path_def)
  show ?thesis
    using connect_result [OF assms, of s] connect_layers [OF assms, of s]
      connect_documents [OF assms, of s] connect_maps [OF assms, of s] l d m
    by (simp add: scanned_folder_def)
qed

lemma connect_first_shp:
  assumes "path_exists h p"
    and "\<forall>f \<in> set (rglob h (scanned_folder h p ''capas'')).
           is_layer_path f \<and> stem f = n \<longrightarrow> lower (suffix f) = ''.shp''"
  shows "map_of (layers (fst (snd (connect p (s, h))))) n =
     (case find (\<lambda>f. is_layer_path f \<and> stem f = n) (rglob h (scanned_folder h p ''capas'')) of
        None \<Rightarrow> None
      | Some f \<Rightarrow> analyze_layer h f)"
  using scan_layers_loop_first_shp [of "rglob h (scanned_folder h p ''capas'')" n "{}" "[]" h]
    assms(2) connect_layers [OF assms(1), of s]
  by (simp add: scanned_folder_def is_layer_path_def)

text \<open>
  C5, as amended: on an existing root \<open>connect\<close> succeeds, and the three counts it reports
  are the numbers of distinct base names among the paths with a layer extension, among
  the regular files with a document extension, and among the paths with a map-project
  extension, each listed under the folder scanned for its kind (the subfolder \<open>capas\<close>,
  \<open>documentos\<close> or \<open>mapas\<close> of the root when it exists, the root otherwise). For a base name
  whose layer paths are all \<open>.shp\<close>, the entry is the analysis of the first of them in the
  listing.
\<close>

theorem connect_counts_by_stem:
  assumes "path_exists h p"
  shows "fst (connect p (s, h)) =
      Inr (\<lparr>capas = card (stem ` {f \<in> set (rglob h (scanned_folder h p ''capas'')).
                                  is_layer_path f}),
            documentos = card (stem ` {f \<in> set (rglob h (scanned_folder h p ''documentos'')).
                                  is_document_path h f}),
            mapas = card (stem ` {f \<in> set (rglob h (scanned_folder h p ''mapas'')).
                                  is_map_path f})\<rparr>, now h)
    \<and> (\<forall>n. (\<forall>f \<in> set (rglob h (scanned_folder h p ''capas'')).
                is_layer_path f \<and> stem f = n \<longrightarrow> lower (suffix f) = ''.shp'')
          \<longrightarrow> map_of (layers (fst (snd (connect p (s, h))))) n =
               (case find (\<lambda>f. is_layer_path f \<and> stem f = n)
                       (rglob h (scanned_folder h p ''capas'')) of
                  None \<Rightarrow> None
                | Some f \<Rightarrow> analyze_layer h f))"
  using connect_counts [OF assms] connect_first_shp [OF assms] by blast

lemma host2_folders:
  "scanned_folder host2 ''kb'' ''capas'' = ''kb''"
  "scanned_folder host2 ''kb'' ''documentos'' = ''kb''"
  "scanned_folder host2 ''kb'' ''mapas'' = ''kb''"
  "rglob host2 ''kb'' = [''kb/vias.shp'', ''kb/sub/vias.shp'', ''kb/vias.dbf'', ''kb/a.pdf'',
     ''kb/a.txt'', ''kb/plan.qgz'']"
  by (simp_all add: scanned_folder_def host2_def host1_def joinpath_def)

lemma host2_kinds:
  "is_layer_path ''kb/vias.shp''" "is_layer_path ''kb/sub/vias.shp''"
  "\<not> is_layer_path ''kb/vias.dbf''" "\<not> is_layer_path ''kb/a.pdf''"
  "\<not> is_layer_path ''kb/a.txt''" "\<not> is_layer_path ''kb/plan.qgz''"
  "\<not> is_document_path host2 ''kb/vias.shp''" "\<not> is_document_path host2 ''kb/sub/vias.shp''"
  "\<not> is_document_path host2 ''kb/vias.dbf''" "is_document_path host2 ''kb/a.pdf''"
  "is_document_path host2 ''kb/a.txt''" "\<not> is_document_path host2 ''kb/plan.qgz''"
  by (simp_all add: is_layer_path_def is_document_path_def host2_paths lower_simps
      LAYER_EXTENSIONS_def DOC_EXTENSIONS_def host2_def host1_def)

theorem connect_counts_by_stem_witness:
  "path_exists host2 ''kb''
   \<and> fst (connect ''kb'' (store1, host2)) = Inr (\<lparr>capas = 1, documentos = 1, mapas = 1\<rparr>, 8)
   \<and> card (stem ` {f \<in> set (rglob host2 (scanned_folder host2 ''kb'' ''documentos'')).
                    is_document_path host2 f}) = 1
   \<and> filter is_layer_path (rglob host2 (scanned_folder host2 ''kb'' ''capas''))
       = [''kb/vias.shp'', ''kb/sub/vias.shp'']
   \<and> map_of (layers (fst (snd (connect ''kb'' (store1, host2))))) ''vias'' = Some vias_scanned
   \<and> analyze_layer host2 ''kb/vias.shp'' = Some vias_scanned"
proof -
  have a: "path_exists host2 ''kb''" by (simp add: host2_def host1_def)
  have b: "\<forall>f \<in> set (rglob host2 (scanned_folder host2 ''kb'' ''capas'')).
             is_layer_path f \<and> stem f = ''vias'' \<longrightarrow> lower (suffix f) = ''.shp''"
    by (simp add: host2_folders host2_kinds host2_paths lower_simps)
  have c: "fst (connect ''kb'' (store1, host2)) = Inr (\<lparr>capas = 1, documentos = 1, mapas = 1\<rparr>, 8)"
    using connect_result [OF a, of store1]
    by (simp add: host2_scan) (simp add: host2_def host1_def)
  have d: "analyze_layer host2 ''kb/vias.shp'' = Some vias_scanned"
    by (simp add: analyze_layer_def host2_def host1_def host2_paths lower_simps format_of_def
        vias_scanned_def)
  show ?thesis
    using a b c d connect_counts_by_stem [OF a, of store1]
    by (simp add: host2_folders host2_kinds host2_paths)
qed

text \<open>
  C5 as stated fails: the root of \<open>host2\<close> holds two document files, \<open>a.pdf\<close> and \<open>a.txt\<close>,
  and \<open>connect\<close> reports one document.
\<close>

theorem connect_counts_files_counterexample:
  "length (filter (is_document_path host2) (rglob host2 ''kb'')) = 2
   \<and> fst (connect ''kb'' (new_store, host2)) = Inr (\<lparr>capas = 1, documentos = 1, mapas = 1\<rparr>, 8)"
proof -
  have a: "path_exists host2 ''kb''" by (simp add: host2_def host1_def)
  have "fst (connect ''kb'' (new_store, host2)) = Inr (\<lparr>capas = 1, documentos = 1, mapas = 1\<rparr>, 8)"
    using connect_result [OF a, of new_store]
    by (simp add: host2_scan) (simp add: host2_def host1_def)
  then show ?thesis
    by (simp add: host2_folders host2_kinds)
qed

section \<open>Properties of the execution engine\<close>

subsection \<open>Evaluating the deny list\<close>

lemma lower_char_simps:
  "lower_char (CHR '' '') = CHR '' ''"
  "lower_char (CHR ''!'') = CHR ''!''"
  "lower_char (CHR 0x22) = CHR 0x22"
  "lower_char (CHR ''#'') = CHR ''#''"
  "lower_char (CHR ''$'') = CHR ''$''"
  "lower_char (CHR ''%'') = CHR ''%''"
  "lower_char (CHR ''&'') = CHR ''&''"
  "lower_char (CHR 0x27) = CHR 0x27"
  "lower_char (CHR ''('') = CHR ''(''"
  "lower_char (CHR '')'') = CHR '')''"
  "lower_char (CHR ''*'') = CHR ''*''"
  "lower_char (CHR ''+'') = CHR ''+''"
  "lower_char (CHR '','') = CHR '',''"
  "lower_char (CHR ''-'') = CHR ''-''"
  "lower_char (CHR ''.'') = CHR ''.''"
  "lower_char (CHR ''/'') = CHR ''/''"
  "lower_char (CHR ''0'') = CHR ''0''"
  "lower_char (CHR ''1'') = CHR ''1''"
  "lower_char (CHR ''2'') = CHR ''2''"
  "lower_char (CHR ''3'') = CHR ''3''"
  "lower_char (CHR ''4'') = CHR ''4''"
  "lower_char (CHR ''5'') = CHR ''5''"
  "lower_char (CHR ''6'') = CHR ''6''"
  "lower_char (CHR ''7'') = CHR ''7''"
  "lower_char (CHR ''8'') = CHR ''8''"
  "lower_char (CHR ''9'') = CHR ''9''"
  "lower_char (CHR '':'') = CHR '':''"
  "lower_char (CHR '';'') = CHR '';''"
  "lower_char (CHR ''<'') = CHR ''<''"
  "lower_char (CHR ''='') = CHR ''=''"
  "lower_char (CHR ''>'') = CHR ''>''"
  "lower_char (CHR ''?'') = CHR ''?''"
  "lower_char (CHR ''@'') = CHR ''@''"
  "lower_char (CHR ''A'') = CHR ''a''"
  "lower_char (CHR ''B'') = CHR ''b''"
  "lower_char (CHR ''C'') = CHR ''c''"
  "lower_char (CHR ''D'') = CHR ''d''"
  "lower_char (CHR ''E'') = CHR ''e''"
  "lower_char (CHR ''F'') = CHR ''f''"
  "lower_char (CHR ''G'') = CHR ''g''"
  "lower_char (CHR ''H'') = CHR ''h''"
  "lower_char (CHR ''I'') = CHR ''i''"
  "lower_char (CHR ''J'') = CHR ''j''"
  "lower_char (CHR ''K'') = CHR ''k''"
  "lower_char (CHR ''L'') = CHR ''l''"
  "lower_char (CHR ''M'') = CHR ''m''"
  "lower_char (CHR ''N'') = CHR ''n''"
  "lower_char (CHR ''O'') = CHR ''o''"
  "lower_char (CHR ''P'') = CHR ''p''"
  "lower_char (CHR ''Q'') = CHR ''q''"
  "lower_char (CHR ''R'') = CHR ''r''"
  "lower_char (CHR ''S'') = CHR ''s''"
  "lower_char (CHR ''T'') = CHR ''t''"
  "lower_char (CHR ''U'') = CHR ''u''"
  "lower_char (CHR ''V'') = CHR ''v''"
  "lower_char (CHR ''W'') = CHR ''w''"
  "lower_char (CHR ''X'') = CHR ''x''"
  "lower_char (CHR ''Y'') = CHR ''y''"
  "lower_char (CHR ''Z'') = CHR ''z''"
  "lower_char (CHR ''['') = CHR ''[''"
  "lower_char (CHR 0x5C) = CHR 0x5C"
  "lower_char (CHR '']'') = CHR '']''"
  "lower_char (CHR ''^'') = CHR ''^''"
  "lower_char (CHR ''_'') = CHR ''_''"
  "lower_char (CHR ''`'') = CHR ''`''"
  "lower_char (CHR ''a'') = CHR ''a''"
  "lower_char (CHR ''b'') = CHR ''b''"
  "lower_char (CHR ''c'') = CHR ''c''"
  "lower_char (CHR ''d'') = CHR ''d''"
  "lower_char (CHR ''e'') = CHR ''e''"
  "lower_char (CHR ''f'') = CHR ''f''"
  "lower_char (CHR ''g'') = CHR ''g''"
  "lower_char (CHR ''h'') = CHR ''h''"
  "lower_char (CHR ''i'') = CHR ''i''"
  "lower_char (CHR ''j'') = CHR ''j''"
  "lower_char (CHR ''k'') = CHR ''k''"
  "lower_char (CHR ''l'') = CHR ''l''"
  "lower_char (CHR ''m'') = CHR ''m''"
  "lower_char (CHR ''n'') = CHR ''n''"
  "lower_char (CHR ''o'') = CHR ''o''"
  "lower_char (CHR ''p'') = CHR ''p''"
  "lower_char (CHR ''q'') = CHR ''q''"
  "lower_char (CHR ''r'') = CHR ''r''"
  "lower_char (CHR ''s'') = CHR ''s''"
  "lower_char (CHR ''t'') = CHR ''t''"
  "lower_char (CHR ''u'') = CHR ''u''"
  "lower_char (CHR ''v'') = CHR ''v''"
  "lower_char (CHR ''w'') = CHR ''w''"
  "lower_char (CHR ''x'') = CHR ''x''"
  "lower_char (CHR ''y'') = CHR ''y''"
  "lower_char (CHR ''z'') = CHR ''z''"
  "lower_char (CHR ''{'') = CHR ''{''"
  "lower_char (CHR ''|'') = CHR ''|''"
  "lower_char (CHR ''}'') = CHR ''}''"
  "lower_char (CHR ''~'') = CHR ''~''"
  "lower_char (CHR 0x0A) = CHR 0x0A"
  "lower_char (CHR 0x09) = CHR 0x09"
  by (simp_all add: lower_char_def upper_chars_def lower_chars_def)

lemmas re_eval = validate_code_def FORBIDDEN_PATTERNS_def re_search_def compile_re_def bs_def
  tok_of_def whitespace_def lower_char_simps

lemma validate_samples:
  "validate_code script_two_maps = (True, [])"
  "validate_code script_rebind = (True, [])"
  "validate_code script_print_raise = (True, [])"
  "validate_code script_base_exception = (True, [])"
  by (simp_all add: script_two_maps_def script_rebind_def script_print_raise_def
      script_base_exception_def re_eval)

lemma scripts_differ:
  "script_rebind \<noteq> script_two_maps"
  "script_print_raise \<noteq> script_two_maps" "script_print_raise \<noteq> script_rebind"
  "script_base_exception \<noteq> script_two_maps" "script_base_exception \<noteq> script_rebind"
  "script_base_exception \<noteq> script_print_raise"
  by (simp_all add: script_two_maps_def script_rebind_def script_print_raise_def
      script_base_exception_def)

lemma engine1_globals:
  "exec_globals_of (engine_layers engine1) =
     (''__builtins__'', PyBuiltins) # ALLOWED_MODULES
       @ [(''layers'', PyLayers), (''capas'', PyLayers), (''vias'', PyObject GeoDataFrameClass 4)]"
  by (simp add: exec_globals_of_def engine1_def ALLOWED_MODULES_def safe_name_def
      safe_chars_def)

lemma validate_code_first_match:
  "validate_code code = (False, err) \<longleftrightarrow>
     (\<exists>q. find (\<lambda>pattern. re_search pattern code) FORBIDDEN_PATTERNS = Some q
          \<and> err = violation_prefix @ q)"
  by (auto simp: validate_code_def split: option.splits)

lemma execute_rejected:
  "find (\<lambda>pattern. re_search pattern code) FORBIDDEN_PATTERNS = Some q \<Longrightarrow>
   execute rt code (self, w) =
     (Returns \<lparr>success = False, error = Some (violation_prefix @ q), traceback = None,
               output_text = [], result = PyNone, result_maps = [], figures = [],
               variables = None\<rparr>, self, w)"
  by (simp add: execute_def validate_code_def)

subsection \<open>Rejection by the deny list\<close>

text \<open>
  C1: when the text of a script matches a deny pattern, \<open>execute\<close> returns, whatever the
  runtime, the dict with \<open>success = False\<close>, the error text that names the first pattern of
  the list that matches, empty output, no result and no maps; the engine and the attribute
  state are returned as they were: \<open>self.generated_maps\<close> is not reset, \<open>folium.Map\<close> is not
  replaced, and the interpreter is not consulted.
\<close>

theorem execute_rejects_denied_script:
  assumes "pattern \<in> set FORBIDDEN_PATTERNS" and "re_search pattern code"
  shows "\<exists>q. find (\<lambda>pattern. re_search pattern code) FORBIDDEN_PATTERNS = Some q
           \<and> q \<in> set FORBIDDEN_PATTERNS \<and> re_search q code
           \<and> (\<forall>rt. execute rt code (self, w) =
                 (Returns \<lparr>success = False, error = Some (violation_prefix @ q),
                           traceback = None, output_text = [], result = PyNone,
                           result_maps = [], figures = [], variables = None\<rparr>, self, w))"
proof -
  have "find (\<lambda>pattern. re_search pattern code) FORBIDDEN_PATTERNS \<noteq> None"
    using assms by (auto simp: find_None_iff)
  then obtain q where q: "find (\<lambda>pattern. re_search pattern code) FORBIDDEN_PATTERNS = Some q"
    by blast
  then have "q \<in> set FORBIDDEN_PATTERNS \<and> re_search q code"
    by (auto simp: find_Some_iff)
  then show ?thesis using q execute_rejected [OF q] by blast
qed

theorem execute_rejects_denied_script_witness:
  "''import'' @ bs # ''s+os'' \<in> set FORBIDDEN_PATTERNS
   \<and> re_search (''import'' @ bs # ''s+os'') ''import os.path''
   \<and> execute python1 ''import os.path'' (engine1, attrs1) =
       (Returns \<lparr>success = False,
                 error = Some (violation_prefix @ ''import'' @ bs # ''s+os''),
                 traceback = None, output_text = [], result = PyNone, result_maps = [],
                 figures = [], variables = None\<rparr>, engine1, attrs1)"
proof -
  have a: "''import'' @ bs # ''s+os'' \<in> set FORBIDDEN_PATTERNS"
    by (simp add: FORBIDDEN_PATTERNS_def)
  have b: "re_search (''import'' @ bs # ''s+os'') ''import os.path''"
    by (simp add: re_eval)
  have c: "find (\<lambda>pattern. re_search pattern ''import os.path'') FORBIDDEN_PATTERNS
             = Some (''import'' @ bs # ''s+os'')"
    using b by (simp add: FORBIDDEN_PATTERNS_def)
  show ?thesis
    using a b c execute_rejects_denied_script [OF a b, of engine1 attrs1] by auto
qed

subsection \<open>A run that starts\<close>

lemma execute_run:
  assumes "validate_code code = (True, err)"
    and "w (PyModule Folium) = Some original"
    and "map_of (exec_globals_of (engine_layers self)) ''folium'' = Some (PyModule Folium)"
    and "py_exec rt code (exec_globals_of (engine_layers self))
           (w(PyModule Folium \<mapsto> PyCaptureMap original)) = Some r"
  shows "execute rt code (self, w) =
     (case assign_folium_Map (run_globals r) original (run_attrs r) of
        Inl e \<Rightarrow>
          (Raises e, self\<lparr>generated_maps := snd (try_block rt r), generated_figures := []\<rparr>,
           run_attrs r)
      | Inr w2 \<Rightarrow>
          (fst (try_block rt r),
           self\<lparr>generated_maps := snd (try_block rt r), generated_figures := []\<rparr>, w2))"
  using assms
  by (simp add: execute_def getattr_Map_def assign_folium_Map_def setattr_Map_def Let_def
      split_def split: sum.splits option.splits)

lemma assign_kept:
  "map_of g ''folium'' = Some (PyModule Folium) \<Longrightarrow>
   assign_folium_Map g v w = Inr (w(PyModule Folium \<mapsto> v))"
  by (simp add: assign_folium_Map_def setattr_Map_def)

lemma collect_maps_not_a_class:
  assumes "w (PyModule Folium) = Some (PyCaptureMap f)" and "g \<noteq> []"
  shows "collect_maps w g gm = (Some (TypeError isinstance_message), gm)"
proof (cases g)
  case Nil
  then show ?thesis using assms(2) by simp
next
  case (Cons kv rest)
  then show ?thesis
    using assms(1)
    by (cases kv) (simp add: getattr_Map_def isinstance_def)
qed

text \<open>
  Whatever the script, when the run ends without an exception and \<open>folium.Map\<close> still holds
  a \<open>capture_map\<close> closure, the loop over the namespace raises \<open>TypeError\<close> at its first
  item and \<open>execute\<close> returns the dict of the handler.
\<close>

lemma try_block_completed_with_capture:
  assumes "run_raised r = None" and "run_attrs r (PyModule Folium) = Some (PyCaptureMap f)"
    and "run_globals r \<noteq> []"
  shows "try_block rt r =
     (Returns (failure rt (TypeError isinstance_message) (run_stdout r)), run_captured r)"
  using assms collect_maps_not_a_class [of "run_attrs r" f "run_globals r" "run_captured r"]
  by (simp add: try_block_def TypeError_def)

text \<open>
  When the script leaves the name \<open>folium\<close> bound to the module, the \<open>finally\<close> clause puts
  back what \<open>folium.Map\<close> held on entry.
\<close>

lemma execute_restores_when_binding_kept:
  assumes "validate_code code = (True, err)"
    and "w (PyModule Folium) = Some original"
    and "map_of (exec_globals_of (engine_layers self)) ''folium'' = Some (PyModule Folium)"
    and "py_exec rt code (exec_globals_of (engine_layers self))
           (w(PyModule Folium \<mapsto> PyCaptureMap original)) = Some r"
    and "map_of (run_globals r) ''folium'' = Some (PyModule Folium)"
  shows "snd (snd (execute rt code (self, w))) (PyModule Folium) = Some original"
  using execute_run [of code err w original self rt r] assms
    assign_kept [of "run_globals r" original "run_attrs r"]
  by simp

lemma engine1_folium:
  "map_of (exec_globals_of (engine_layers engine1)) ''folium'' = Some (PyModule Folium)"
  by (simp add: engine1_globals ALLOWED_MODULES_def)

lemma attrs1_folium: "attrs1 (PyModule Folium) = Some (PyClass MapClass)"
  by (simp add: attrs1_def)

lemma python1_runs:
  "py_exec python1 script_two_maps g w =
     Some \<lparr>run_stdout = [], run_captured = [PyObject MapClass 11, PyObject MapClass 12],
           run_globals = AList.update ''mapa'' (PyObject MapClass 12)
                           (AList.update ''m1'' (PyObject MapClass 11) g),
           run_attrs = w, run_raised = None\<rparr>"
  "py_exec python1 script_rebind g w =
     Some \<lparr>run_stdout = [], run_captured = [],
           run_globals = AList.update ''folium'' (PyModule Pandas) g,
           run_attrs = w, run_raised = None\<rparr>"
  "py_exec python1 script_print_raise g w =
     Some \<lparr>run_stdout = ''1'' @ [CHR 0x0A], run_captured = [], run_globals = g, run_attrs = w,
           run_raised = Some \<lparr>exc_kind = ''ZeroDivisionError'',
                               exc_msg = ''division by zero'', is_exception = True\<rparr>\<rparr>"
  "py_exec python1 script_base_exception g w =
     Some \<lparr>run_stdout = [], run_captured = [], run_globals = g, run_attrs = w,
           run_raised = Some \<lparr>exc_kind = ''BaseException'', exc_msg = ''2'',
                               is_exception = False\<rparr>\<rparr>"
  by (simp_all add: python1_def scripts_differ)

subsection \<open>The result of a run that completes\<close>

text \<open>
  C3 fails on the code. The script \<open>script_two_maps\<close> builds two maps through
  \<open>folium.Map\<close> and binds the second to \<open>mapa\<close>; it completes, both maps are in
  \<open>self.generated_maps\<close> in the order of construction and \<open>mapa\<close> is the first result name
  bound. The loop that follows tests \<open>isinstance(value, folium.Map)\<close> while \<open>folium.Map\<close>
  is still \<open>capture_map\<close>, a function: \<open>TypeError\<close> is raised inside the \<open>try\<close>, and
  \<open>execute\<close> returns \<open>success = False\<close> with no result and no maps.
\<close>

theorem execute_two_maps_fails:
  "fst (execute python1 script_two_maps (engine1, attrs1)) =
     Returns \<lparr>success = False,
              error = Some (''TypeError: '' @ isinstance_message),
              traceback = Some (format_exc python1 (TypeError isinstance_message)),
              output_text = [], result = PyNone, result_maps = [], figures = [],
              variables = None\<rparr>
   \<and> generated_maps (fst (snd (execute python1 script_two_maps (engine1, attrs1))))
       = [PyObject MapClass 11, PyObject MapClass 12]
   \<and> find_result RESULT_NAMES
        (AList.update ''mapa'' (PyObject MapClass 12)
          (AList.update ''m1'' (PyObject MapClass 11) (exec_globals_of (engine_layers engine1))))
       = PyObject MapClass 12"
proof -
  let ?r = "\<lparr>run_stdout = [], run_captured = [PyObject MapClass 11, PyObject MapClass 12],
             run_globals = AList.update ''mapa'' (PyObject MapClass 12)
               (AList.update ''m1'' (PyObject MapClass 11)
                  (exec_globals_of (engine_layers engine1))),
             run_attrs = attrs1(PyModule Folium \<mapsto> PyCaptureMap (PyClass MapClass)),
             run_raised = None\<rparr>"
  have t: "try_block python1 ?r =
      (Returns (failure python1 (TypeError isinstance_message) []),
       [PyObject MapClass 11, PyObject MapClass 12])"
    using try_block_completed_with_capture [of ?r "PyClass MapClass" python1] by simp
  have k: "map_of (run_globals ?r) ''folium'' = Some (PyModule Folium)"
    by (simp add: engine1_globals ALLOWED_MODULES_def)
  have e: "execute python1 script_two_maps (engine1, attrs1) =
      (Returns (failure python1 (TypeError isinstance_message) []),
       engine1\<lparr>generated_maps := [PyObject MapClass 11, PyObject MapClass 12],
               generated_figures := []\<rparr>,
       (attrs1(PyModule Folium \<mapsto> PyCaptureMap (PyClass MapClass)))
         (PyModule Folium \<mapsto> PyClass MapClass))"
    using execute_run [of script_two_maps "[]" attrs1 "PyClass MapClass" engine1 python1 ?r]
      validate_samples(1) attrs1_folium engine1_folium
      python1_runs(1) [of "exec_globals_of (engine_layers engine1)"
        "attrs1(PyModule Folium \<mapsto> PyCaptureMap (PyClass MapClass))"]
      assign_kept [OF k, of "PyClass MapClass" "run_attrs ?r"]
    by (simp add: t)
  have f: "find_result RESULT_NAMES (run_globals ?r) = PyObject MapClass 12"
    by (simp add: engine1_globals ALLOWED_MODULES_def RESULT_NAMES_def)
  show ?thesis
    using e f by (simp add: failure_def TypeError_def)
qed

subsection \<open>Restoring the constructor\<close>

text \<open>
  C2 fails on the code. The \<open>finally\<close> clause assigns through \<open>exec_globals['folium']\<close>, the
  namespace the script has just written to. The script \<open>script_rebind\<close> binds the name
  \<open>folium\<close> to the pandas module and completes; \<open>execute\<close> returns (the dict of the handler,
  for the \<open>TypeError\<close> of the loop over the namespace), the original constructor has been
  stored as attribute \<open>Map\<close> of pandas, and \<open>folium.Map\<close> is still \<open>capture_map\<close>. The next
  call of \<open>execute\<close>, on another script, finds the closure as its constructor and leaves it
  in place.
\<close>

theorem execute_rebind_leaves_capture_installed:
  "attrs1 (PyModule Folium) = Some (PyClass MapClass)
   \<and> fst (execute python1 script_rebind (engine1, attrs1))
       = Returns (failure python1 (TypeError isinstance_message) [])
   \<and> snd (snd (execute python1 script_rebind (engine1, attrs1))) (PyModule Folium)
       = Some (PyCaptureMap (PyClass MapClass))
   \<and> snd (snd (execute python1 script_rebind (engine1, attrs1))) (PyModule Pandas)
       = Some (PyClass MapClass)
   \<and> snd (snd (execute python1 script_two_maps
                  (snd (execute python1 script_rebind (engine1, attrs1))))) (PyModule Folium)
       = Some (PyCaptureMap (PyClass MapClass))"
proof -
  let ?w1 = "attrs1(PyModule Folium \<mapsto> PyCaptureMap (PyClass MapClass))"
  let ?g = "exec_globals_of (engine_layers engine1)"
  let ?r = "\<lparr>run_stdout = [], run_captured = [],
             run_globals = AList.update ''folium'' (PyModule Pandas) ?g,
             run_attrs = ?w1, run_raised = None\<rparr>"
  let ?w2 = "?w1(PyModule Pandas \<mapsto> PyClass MapClass)"
  let ?self2 = "engine1\<lparr>generated_maps := [], generated_figures := []\<rparr>"
  have t: "try_block python1 ?r =
      (Returns (failure python1 (TypeError isinstance_message) []), [])"
    using try_block_completed_with_capture [of ?r "PyClass MapClass" python1] by simp
  have a: "assign_folium_Map (run_globals ?r) (PyClass MapClass) (run_attrs ?r) = Inr ?w2"
    by (simp add: assign_folium_Map_def setattr_Map_def update_conv')
  have first: "execute python1 script_rebind (engine1, attrs1) =
      (Returns (failure python1 (TypeError isinstance_message) []), ?self2, ?w2)"
    using execute_run [of script_rebind "[]" attrs1 "PyClass MapClass" engine1 python1 ?r]
      validate_samples(2) attrs1_folium engine1_folium python1_runs(2) [of ?g ?w1] a
    by (simp add: t)
  let ?w3 = "?w2(PyModule Folium \<mapsto> PyCaptureMap (PyCaptureMap (PyClass MapClass)))"
  let ?r2 = "\<lparr>run_stdout = [], run_captured = [PyObject MapClass 11, PyObject MapClass 12],
             run_globals = AList.update ''mapa'' (PyObject MapClass 12)
               (AList.update ''m1'' (PyObject MapClass 11) ?g),
             run_attrs = ?w3, run_raised = None\<rparr>"
  have k: "map_of (run_globals ?r2) ''folium'' = Some (PyModule Folium)"
    by (simp add: engine1_globals ALLOWED_MODULES_def)
  have g2: "exec_globals_of (engine_layers ?self2) = ?g" by simp
  have second: "snd (snd (execute python1 script_two_maps (?self2, ?w2))) (PyModule Folium)
      = Some (PyCaptureMap (PyClass MapClass))"
    using execute_restores_when_binding_kept
      [of script_two_maps "[]" ?w2 "PyCaptureMap (PyClass MapClass)" ?self2 python1 ?r2]
      validate_samples(1) engine1_folium python1_runs(1) [of ?g ?w3] k g2
    by simp
  show ?thesis
    using first second by (simp add: attrs1_folium)
qed

subsection \<open>A script that raises\<close>





end
